theory Spec2Isabelle
  imports Main "HOL-Library.Word"
begin

section \<open>The stack sampler of ext/stacks/stacks.c\<close>

text \<open>
  The C extension keeps its state in thread-local variables (one set per thread) and a few
  globals. Every function of the source becomes a function on records of these
  variables; what the source reads from the host runtime (is the collector running,
  which frames are on the stack, what fresh memory holds) is passed in as a record
  \<open>env\<close>.

  Integer types. The per-thread counters are declared \<open>atomic_uint_fast16_t\<close> and
  \<open>atomic_uint_fast32_t\<close>. The C standard fixes only a lower bound for their widths, and
  the platforms the extension builds on differ: glibc on a 64-bit machine makes both
  \<open>unsigned long\<close> (64 bits), glibc on a 32-bit machine \<open>unsigned int\<close>, other C
  libraries use 16 and 32 bits. The widths are therefore type parameters \<open>'w\<close> and
  \<open>'v\<close> of the model. \<open>int\<close> is taken to be 32 bits wide.

  The loop of the timer thread (\<open>background_worker\<close>) and the broadcast
  (\<open>scout_signal_threads_to_profile\<close>) decide when a signal reaches a thread; the model
  starts where the signal arrives.
\<close>

subsection \<open>Values of the host runtime\<close>

datatype rb_value =
    Qtrue
  | Qfalse
  | Qnil
  | Fixnum int
  | Frame nat
  | Str string
  | Ary "rb_value list"

datatype rb_exception = ArgumentError | RangeError

text \<open>
  How a call ends: it returns a value, it raises an exception of the runtime, or it runs
  into undefined behaviour of C, which is kept apart here: a read outside an array of
  the buffer, or \<open>free\<close> applied to a pointer that is not a block of the heap (glibc
  aborts the process there).
\<close>

datatype outcome = Return rb_value | Raise rb_exception | Out_of_bounds | Invalid_free

subsection \<open>Constants and data\<close>

definition BUF_SIZE :: nat where
  "BUF_SIZE = 512"

definition MAX_TRACES :: nat where
  "MAX_TRACES = 2000"

text \<open>\<open>struct c_trace\<close>: the two arrays have \<open>BUF_SIZE\<close> cells, indexed from 0.\<close>

record c_trace =
  num_tracelines :: int
  lines_buf :: "nat \<Rightarrow> int"
  frames_buf :: "nat \<Rightarrow> rb_value"

type_synonym pthread_t = nat

text \<open>
  The pointers of the source that can reach \<open>xfree\<close>: the address of the thread-local
  variable \<open>_traces\<close>, which lies in thread-local storage, and the block \<open>ALLOC_N\<close>
  returned, which lies in the heap.
\<close>

datatype pointer = Addr_of_traces_variable | Traces_block

fun heap_block :: "pointer \<Rightarrow> bool" where
  "heap_block Addr_of_traces_variable = False"
| "heap_block Traces_block = True"

datatype cleanup_routine = Thread_cleanup_handler

text \<open>
  The thread-local variables. \<open>traces\<close> is the array \<open>_traces\<close> points to
  (\<open>MAX_TRACES\<close> cells). \<open>gc_hook_registrations\<close> counts how often the address of
  \<open>_gc_hook\<close> is registered with the collector, \<open>xfreed\<close> lists the pointers handed
  to \<open>xfree\<close>, and \<open>cleanup_handlers\<close> is the thread's stack of cancellation cleanup
  handlers, which the thread library runs when the thread exits.
\<close>

record (overloaded) ('w, 'v) thread_vars =
  traces :: "nat \<Rightarrow> c_trace"
  ok_to_sample :: bool
  in_signal_handler :: bool
  start_frame_index :: "'w word"
  start_trace_index :: "'w word"
  cur_traces_num :: "'w word"
  skipped_in_gc :: "'v word"
  skipped_in_signal_handler :: "'v word"
  gc_hook_registrations :: nat
  xfreed :: "pointer list"
  cleanup_handlers :: "cleanup_routine list"

text \<open>
  Two instances: glibc on a 64-bit machine (both counter types \<open>unsigned long\<close>), and a
  C library with a 16-bit \<open>uint_fast16_t\<close> and a 32-bit \<open>uint_fast32_t\<close>.
\<close>

type_synonym thread_vars_64 = "(64, 64) thread_vars"

type_synonym thread_vars_16 = "(16, 32) thread_vars"

datatype sig_handler = Sig_default | Scout_profile_broadcast_signal_handler

text \<open>
  The globals: the two flags, the linked list \<open>head_thread\<close> (newest first), the
  number of threads \<open>pthread_create\<close> has started on \<open>background_worker\<close>, the number
  of cancellations requested for \<open>btid\<close>, the action installed for \<open>SIGVTALRM\<close> and
  whether the constant \<open>INSTALLED\<close> has been defined on the class.
\<close>

record globals =
  scout_profiling_installed :: int
  scout_profiling_running :: int
  head_thread :: "pthread_t list"
  background_workers :: nat
  cancel_requests :: nat
  sigvtalrm_action :: sig_handler
  const_INSTALLED :: bool

text \<open>
  What a call reads from the host runtime:
  \<^item> \<open>during_gc\<close>: the answer of \<open>rb_during_gc()\<close>;
  \<^item> \<open>stack\<close>: the frames of the calling thread with their line numbers, in the order
    \<open>rb_profile_frames\<close> reports them;
  \<^item> \<open>rb_ary_new2_accepts\<close>: whether the array constructor grants a capacity the code
    has computed. It receives the value of the argument expression in the expression's
    own C type; the conversion to \<open>long\<close> and the runtime's range check lie behind it;
  \<^item> \<open>fresh_traces\<close>: the content of the memory \<open>ALLOC_N\<close> hands out (not initialised);
  \<^item> \<open>frame_classpath\<close>: \<open>rb_profile_frame_classpath\<close>.
\<close>

record env =
  during_gc :: bool
  stack :: "(rb_value \<times> int) list"
  rb_ary_new2_accepts :: "int \<Rightarrow> bool"
  fresh_traces :: "nat \<Rightarrow> c_trace"
  frame_classpath :: "rb_value \<Rightarrow> rb_value"

subsection \<open>C arithmetic on the index type\<close>

text \<open>
  An operand of type \<open>uint_fast16_t\<close> narrower than \<open>int\<close> is promoted to \<open>int\<close>, and
  the arithmetic is signed. One at least as wide as \<open>int\<close> keeps its unsigned type, the
  other operand is converted to it, and the arithmetic wraps around. Each function below
  gives the mathematical value of a C expression of the source.
\<close>

text \<open>\<open>num_frames - start_frame_index\<close>, with \<open>int num_frames\<close>.\<close>

definition frames_minus_start :: "int \<Rightarrow> 'w::len word \<Rightarrow> int" where
  "frames_minus_start num_frames sfi =
     (if LENGTH('w) < 32 then num_frames - uint sfi
      else uint ((word_of_int num_frames :: 'w word) - sfi))"

text \<open>\<open>num_frames - start_frame_index - 2\<close>.\<close>

definition frames_minus_start_minus_2 :: "int \<Rightarrow> 'w::len word \<Rightarrow> int" where
  "frames_minus_start_minus_2 num_frames sfi =
     (if LENGTH('w) < 32 then num_frames - uint sfi - 2
      else uint ((word_of_int num_frames :: 'w word) - sfi - 2))"

text \<open>\<open>cur_traces_num - start_trace_index\<close>, both of the index type.\<close>

definition traces_minus_start :: "'w::len word \<Rightarrow> 'w word \<Rightarrow> int" where
  "traces_minus_start cur start =
     (if LENGTH('w) < 32 then uint cur - uint start else uint (cur - start))"

text \<open>Conversion to \<open>int\<close> of a value that may not fit: the low 32 bits, read as signed.\<close>

definition to_c_int :: "int \<Rightarrow> int" where
  "to_c_int v = signed_take_bit 31 v"

text \<open>
  \<open>NUM2INT\<close> on an Integer of the runtime: the value when it fits a C \<open>int\<close>, a
  \<open>RangeError\<close> otherwise.
\<close>

definition num2int :: "int \<Rightarrow> int option" where
  "num2int v = (if - (2 ^ 31) \<le> v \<and> v < 2 ^ 31 then Some v else None)"

subsection \<open>The thread list\<close>

text \<open>
  The loop of \<open>remove_profiled_thread\<close> over the linked list: the first node of the
  calling thread is unlinked, the walk stops there.
\<close>

fun unlink_thread :: "pthread_t \<Rightarrow> pthread_t list \<Rightarrow> pthread_t list" where
  "unlink_thread th [] = []"
| "unlink_thread th (p # ps) = (if p = th then ps else p # unlink_thread th ps)"

text \<open>
  \<open>init_thread_vars\<close>. The call of \<open>pthread_cleanup_push\<close> is commented out in the
  source, so \<open>cleanup_handlers\<close> is not touched.
\<close>

definition init_thread_vars :: "env \<Rightarrow> ('w::len, 'v::len) thread_vars \<Rightarrow> ('w, 'v) thread_vars" where
  "init_thread_vars e t =
     t\<lparr>ok_to_sample := False,
       in_signal_handler := False,
       start_frame_index := 0,
       start_trace_index := 0,
       cur_traces_num := 0,
       traces := fresh_traces e,
       gc_hook_registrations := gc_hook_registrations t + 1\<rparr>"

definition rb_scout_add_profiled_thread ::
  "env \<Rightarrow> pthread_t \<Rightarrow> globals \<times> ('w::len, 'v::len) thread_vars
     \<Rightarrow> outcome \<times> globals \<times> ('w, 'v) thread_vars" where
  "rb_scout_add_profiled_thread e self st =
     (case st of (g, t) \<Rightarrow>
        (Return Qtrue, g\<lparr>head_thread := self # head_thread g\<rparr>, init_thread_vars e t))"

text \<open>
  \<open>xfree(p)\<close> passes \<open>p\<close> to \<open>free\<close>: the call is recorded, and it is undefined
  behaviour unless \<open>p\<close> is a block of the heap.
\<close>

definition xfree ::
  "pointer \<Rightarrow> ('w::len, 'v::len) thread_vars \<Rightarrow> outcome option \<times> ('w, 'v) thread_vars" where
  "xfree p t = (if heap_block p then None else Some Invalid_free, t\<lparr>xfreed := xfreed t @ [p]\<rparr>)"

text \<open>
  \<open>remove_profiled_thread\<close>: sampling off, the list walk, then the collector
  registration is dropped (a registration that is not there is left alone) and
  \<open>xfree(&_traces)\<close> is called, on the address of the variable and not on the block it
  points to. \<open>return 0\<close> comes after that call. The result is \<open>Inr r\<close> when the
  function returns \<open>r\<close>, and \<open>Inl f\<close> with the state reached when it ends in \<open>f\<close>.
\<close>

definition remove_profiled_thread ::
  "pthread_t \<Rightarrow> globals \<times> ('w::len, 'v::len) thread_vars
     \<Rightarrow> (outcome + int) \<times> globals \<times> ('w, 'v) thread_vars" where
  "remove_profiled_thread self st =
     (case st of (g, t) \<Rightarrow>
        let g1 = g\<lparr>head_thread := unlink_thread self (head_thread g)\<rparr>;
            t1 = t\<lparr>ok_to_sample := False,
                   gc_hook_registrations :=
                     (if 0 < gc_hook_registrations t then gc_hook_registrations t - 1 else 0)\<rparr>
        in (case xfree Addr_of_traces_variable t1 of
              (Some f, t2) \<Rightarrow> (Inl f, g1, t2)
            | (None, t2) \<Rightarrow> (Inr 0, g1, t2)))"

definition rb_scout_remove_profiled_thread ::
  "pthread_t \<Rightarrow> globals \<times> ('w::len, 'v::len) thread_vars
     \<Rightarrow> outcome \<times> globals \<times> ('w, 'v) thread_vars" where
  "rb_scout_remove_profiled_thread self st =
     (case remove_profiled_thread self st of
        (Inl f, g, t) \<Rightarrow> (f, g, t)
      | (Inr r, g, t) \<Rightarrow> (Return Qtrue, g, t))"

text \<open>\<open>thread_cleanup_handler\<close>: \<open>None\<close> when it returns, \<open>Some f\<close> when it ends in \<open>f\<close>.\<close>

definition thread_cleanup_handler ::
  "pthread_t \<Rightarrow> globals \<times> ('w::len, 'v::len) thread_vars
     \<Rightarrow> outcome option \<times> globals \<times> ('w, 'v) thread_vars" where
  "thread_cleanup_handler self st =
     (case remove_profiled_thread self st of
        (Inl f, g, t) \<Rightarrow> (Some f, g, t)
      | (Inr r, g, t) \<Rightarrow> (None, g, t))"

text \<open>
  What the thread library does when a thread is cancelled or calls \<open>pthread_exit\<close>:
  it pops the cleanup handlers the thread has pushed and runs them, the newest first. (A
  thread that returns from its start routine runs none at all.) A handler that ends in
  undefined behaviour ends the run. \<open>thread_exit\<close> is the state the exit leaves behind.
\<close>

fun run_cleanup_handlers ::
  "pthread_t \<Rightarrow> cleanup_routine list \<Rightarrow> globals \<times> ('w::len, 'v::len) thread_vars
     \<Rightarrow> outcome option \<times> globals \<times> ('w, 'v) thread_vars" where
  "run_cleanup_handlers self [] st = (None, st)"
| "run_cleanup_handlers self (Thread_cleanup_handler # hs) st =
     (case thread_cleanup_handler self st of
        (Some f, st') \<Rightarrow> (Some f, st')
      | (None, st') \<Rightarrow> run_cleanup_handlers self hs st')"

definition thread_exit ::
  "pthread_t \<Rightarrow> globals \<times> ('w::len, 'v::len) thread_vars \<Rightarrow> globals \<times> ('w, 'v) thread_vars" where
  "thread_exit self st =
     (case st of (g, t) \<Rightarrow>
        snd (run_cleanup_handlers self (cleanup_handlers t) (g, t\<lparr>cleanup_handlers := []\<rparr>)))"

subsection \<open>Installation\<close>

text \<open>
  \<open>rb_scout_install_profiling\<close>. The source does not test the results of
  \<open>pthread_create\<close> and \<open>sigaction\<close>; both are taken to succeed.
\<close>

definition rb_scout_install_profiling :: "globals \<Rightarrow> outcome \<times> globals" where
  "rb_scout_install_profiling g =
     (if scout_profiling_installed g \<noteq> 0 then (Return Qfalse, g)
      else (Return Qtrue,
            g\<lparr>background_workers := background_workers g + 1,
              sigvtalrm_action := Scout_profile_broadcast_signal_handler,
              const_INSTALLED := True,
              scout_profiling_installed := 1\<rparr>))"

definition rb_scout_uninstall_profiling :: "globals \<Rightarrow> outcome \<times> globals" where
  "rb_scout_uninstall_profiling g = (Return Qnil, g\<lparr>cancel_requests := cancel_requests g + 1\<rparr>)"

definition rb_scout_start_profiling :: "globals \<Rightarrow> outcome \<times> globals" where
  "rb_scout_start_profiling g =
     (if scout_profiling_running g \<noteq> 0 then (Return Qtrue, g)
      else (Return Qtrue, g\<lparr>scout_profiling_running := 1\<rparr>))"

subsection \<open>Capturing a sample\<close>

text \<open>
  Modelled from the spec: the frame-capture primitive
  \<open>rb_profile_frames(0, limit, frames, lines)\<close> belongs to the host runtime. By its
  contract it writes the first \<open>limit\<close> frames of the stack and their lines into the two
  arrays and returns how many it wrote; the other cells keep their content.
\<close>

definition rb_profile_frames :: "(rb_value \<times> int) list \<Rightarrow> nat \<Rightarrow> c_trace \<Rightarrow> nat \<times> c_trace" where
  "rb_profile_frames stk limit tr =
     (let n = min (length stk) limit in
      (n, tr\<lparr>frames_buf := (\<lambda>k. if k < n then fst (stk ! k) else frames_buf tr k),
             lines_buf := (\<lambda>k. if k < n then snd (stk ! k) else lines_buf tr k)\<rparr>))"

text \<open>
  \<open>scout_record_sample\<close>. The primitive writes into the cell at \<open>cur_traces_num\<close>
  before the test on the number of frames; the cell counts only once
  \<open>cur_traces_num\<close> has been incremented.
\<close>

definition scout_record_sample :: "env \<Rightarrow> ('w::len, 'v::len) thread_vars \<Rightarrow> ('w, 'v) thread_vars" where
  "scout_record_sample e t =
     (if \<not> ok_to_sample t then t
      else if during_gc e then t\<lparr>skipped_in_gc := skipped_in_gc t + 1\<rparr>
      else
        let cur = cur_traces_num t; sfi = start_frame_index t in
        if unat cur < MAX_TRACES then
          (case rb_profile_frames (stack e) BUF_SIZE (traces t (unat cur)) of
             (num_frames, cell) \<Rightarrow>
               if 2 < frames_minus_start (int num_frames) sfi then
                 t\<lparr>traces := (traces t)
                      (unat cur := cell\<lparr>num_tracelines :=
                         to_c_int (frames_minus_start_minus_2 (int num_frames) sfi)\<rparr>),
                   cur_traces_num := cur_traces_num t + 1\<rparr>
               else t\<lparr>traces := (traces t)(unat cur := cell)\<rparr>)
        else t)"

text \<open>\<open>scout_profile_broadcast_signal_handler\<close>, the handler of \<open>SIGVTALRM\<close>.\<close>

definition scout_profile_broadcast_signal_handler ::
  "env \<Rightarrow> ('w::len, 'v::len) thread_vars \<Rightarrow> ('w, 'v) thread_vars" where
  "scout_profile_broadcast_signal_handler e t =
     (if \<not> ok_to_sample t then t
      else if in_signal_handler t then
        t\<lparr>skipped_in_signal_handler := skipped_in_signal_handler t + 1\<rparr>
      else (scout_record_sample e (t\<lparr>in_signal_handler := True\<rparr>))\<lparr>in_signal_handler := False\<rparr>)"

text \<open>A run of capture attempts on one thread, one \<open>env\<close> per attempt.\<close>

fun captures :: "env list \<Rightarrow> ('w::len, 'v::len) thread_vars \<Rightarrow> ('w, 'v) thread_vars" where
  "captures [] t = t"
| "captures (e # es) t = captures es (scout_record_sample e t)"

subsection \<open>Retrieval\<close>

text \<open>
  The inner loop of \<open>rb_scout_profile_frames\<close>, \<open>n\<close> running over the line indices of
  one trace: a pair \<open>[frame, line]\<close> per index. Reading cell \<open>BUF_SIZE\<close> or beyond is
  outside the arrays.
\<close>

fun trace_lines :: "c_trace \<Rightarrow> nat list \<Rightarrow> outcome + rb_value list" where
  "trace_lines tr [] = Inr []"
| "trace_lines tr (n # ns) =
     (if BUF_SIZE \<le> n then Inl Out_of_bounds
      else (case trace_lines tr ns of
              Inl f \<Rightarrow> Inl f
            | Inr ls \<Rightarrow> Inr (Ary [frames_buf tr n, Fixnum (lines_buf tr n)] # ls)))"

text \<open>
  The outer loop, \<open>i\<close> running over the trace indices: a trace with a positive line
  count becomes an array of its lines (the constructor is asked for that capacity), the
  others are passed over. Reading cell \<open>MAX_TRACES\<close> or beyond is outside \<open>_traces\<close>.
\<close>

fun collect_traces :: "env \<Rightarrow> (nat \<Rightarrow> c_trace) \<Rightarrow> nat list \<Rightarrow> outcome + rb_value list" where
  "collect_traces e trs [] = Inr []"
| "collect_traces e trs (i # js) =
     (if MAX_TRACES \<le> i then Inl Out_of_bounds
      else if 0 < num_tracelines (trs i) then
        (if \<not> rb_ary_new2_accepts e (num_tracelines (trs i)) then Inl (Raise ArgumentError)
         else (case trace_lines (trs i) [0..<nat (num_tracelines (trs i))] of
                 Inl f \<Rightarrow> Inl f
               | Inr ls \<Rightarrow>
                   (case collect_traces e trs js of
                      Inl f \<Rightarrow> Inl f
                    | Inr ts \<Rightarrow> Inr (Ary ls # ts))))
      else collect_traces e trs js)"

text \<open>
  \<open>rb_scout_profile_frames\<close>. When the difference of the two counters is positive in C
  arithmetic, the array of traces is requested with that difference as its capacity and
  the loop runs from \<open>start_trace_index\<close> to \<open>cur_traces_num\<close>; otherwise the result is
  an empty array. The store to \<open>cur_traces_num\<close> is the last statement: a call that
  raises or faults does not reach it. The three diagnostic lines the function prints to
  \<open>stderr\<close> are left out.
\<close>

definition rb_scout_profile_frames ::
  "env \<Rightarrow> ('w::len, 'v::len) thread_vars \<Rightarrow> outcome \<times> ('w, 'v) thread_vars" where
  "rb_scout_profile_frames e t =
     (let cur = cur_traces_num t; start = start_trace_index t in
      if 0 < traces_minus_start cur start then
        (if \<not> rb_ary_new2_accepts e (traces_minus_start cur start) then (Raise ArgumentError, t)
         else (case collect_traces e (traces t) [unat start..<unat cur] of
                 Inl f \<Rightarrow> (f, t)
               | Inr ts \<Rightarrow> (Return (Ary ts), t\<lparr>cur_traces_num := start\<rparr>)))
      else (Return (Ary []), t\<lparr>cur_traces_num := start\<rparr>))"

subsection \<open>Control\<close>

definition rb_scout_start_sampling ::
  "('w::len, 'v::len) thread_vars \<Rightarrow> outcome \<times> ('w, 'v) thread_vars" where
  "rb_scout_start_sampling t = (Return Qtrue, t\<lparr>ok_to_sample := True\<rparr>)"

text \<open>\<open>rb_scout_stop_sampling\<close>: \<open>TYPE(reset) == T_TRUE\<close> holds of \<open>Qtrue\<close> alone.\<close>

definition rb_scout_stop_sampling ::
  "('w::len, 'v::len) thread_vars \<Rightarrow> rb_value \<Rightarrow> outcome \<times> ('w, 'v) thread_vars" where
  "rb_scout_stop_sampling t reset =
     (let t1 = t\<lparr>ok_to_sample := False\<rparr> in
      if reset = Qtrue then
        (Return Qtrue,
         t1\<lparr>cur_traces_num := 0, skipped_in_gc := 0, skipped_in_signal_handler := 0\<rparr>)
      else (Return Qtrue, t1))"

text \<open>
  \<open>rb_scout_update_indexes\<close>: the trace index is converted and stored first, then the
  frame index. A store converts the \<open>int\<close> to the index type.
\<close>

definition rb_scout_update_indexes ::
  "('w::len, 'v::len) thread_vars \<Rightarrow> int \<Rightarrow> int \<Rightarrow> outcome \<times> ('w, 'v) thread_vars" where
  "rb_scout_update_indexes t frame_index trace_index =
     (case num2int trace_index of
        None \<Rightarrow> (Raise RangeError, t)
      | Some ti \<Rightarrow>
          let t1 = t\<lparr>start_trace_index := word_of_int ti\<rparr> in
          (case num2int frame_index of
             None \<Rightarrow> (Raise RangeError, t1)
           | Some fi \<Rightarrow> (Return Qtrue, t1\<lparr>start_frame_index := word_of_int fi\<rparr>)))"

definition rb_scout_current_trace_index ::
  "('w::len, 'v::len) thread_vars \<Rightarrow> outcome \<times> ('w, 'v) thread_vars" where
  "rb_scout_current_trace_index t = (Return (Fixnum (to_c_int (uint (cur_traces_num t)))), t)"

definition rb_scout_current_frame_index ::
  "env \<Rightarrow> ('w::len, 'v::len) thread_vars \<Rightarrow> outcome \<times> ('w, 'v) thread_vars" where
  "rb_scout_current_frame_index e t =
     (let num_frames = min (length (stack e)) BUF_SIZE in
      if 1 < num_frames then (Return (Fixnum (int num_frames - 1)), t)
      else (Return (Fixnum 0), t))"

definition rb_scout_klass_for_frame ::
  "env \<Rightarrow> ('w::len, 'v::len) thread_vars \<Rightarrow> rb_value \<Rightarrow> outcome \<times> ('w, 'v) thread_vars" where
  "rb_scout_klass_for_frame e t frame = (Return (frame_classpath e frame), t)"

subsection \<open>The methods \<open>Init_stacks\<close> attaches to the class\<close>

datatype stacks_method =
    Install
  | Uninstall
  | Start
  | Add_profiled_thread
  | Remove_profiled_thread
  | Profile_frames
  | Start_sampling
  | Stop_sampling rb_value
  | Update_indexes int int
  | Current_trace_index
  | Current_frame_index
  | Klass_for_frame rb_value

text \<open>A method called by thread \<open>self\<close>, on the globals and on that thread's variables.\<close>

fun call ::
  "env \<Rightarrow> pthread_t \<Rightarrow> stacks_method \<Rightarrow> globals \<times> ('w::len, 'v::len) thread_vars
     \<Rightarrow> outcome \<times> globals \<times> ('w, 'v) thread_vars" where
  "call e self Install (g, t) =
     (case rb_scout_install_profiling g of (r, g') \<Rightarrow> (r, g', t))"
| "call e self Uninstall (g, t) =
     (case rb_scout_uninstall_profiling g of (r, g') \<Rightarrow> (r, g', t))"
| "call e self Start (g, t) =
     (case rb_scout_start_profiling g of (r, g') \<Rightarrow> (r, g', t))"
| "call e self Add_profiled_thread (g, t) = rb_scout_add_profiled_thread e self (g, t)"
| "call e self Remove_profiled_thread (g, t) = rb_scout_remove_profiled_thread self (g, t)"
| "call e self Profile_frames (g, t) =
     (case rb_scout_profile_frames e t of (r, t') \<Rightarrow> (r, g, t'))"
| "call e self Start_sampling (g, t) =
     (case rb_scout_start_sampling t of (r, t') \<Rightarrow> (r, g, t'))"
| "call e self (Stop_sampling reset) (g, t) =
     (case rb_scout_stop_sampling t reset of (r, t') \<Rightarrow> (r, g, t'))"
| "call e self (Update_indexes frame_index trace_index) (g, t) =
     (case rb_scout_update_indexes t frame_index trace_index of (r, t') \<Rightarrow> (r, g, t'))"
| "call e self Current_trace_index (g, t) =
     (case rb_scout_current_trace_index t of (r, t') \<Rightarrow> (r, g, t'))"
| "call e self Current_frame_index (g, t) =
     (case rb_scout_current_frame_index e t of (r, t') \<Rightarrow> (r, g, t'))"
| "call e self (Klass_for_frame frame) (g, t) =
     (case rb_scout_klass_for_frame e t frame of (r, t') \<Rightarrow> (r, g, t'))"

subsection \<open>What retrieval is expected to return\<close>

text \<open>
  A trace as the sequence of its \<open>(frame, line)\<close> pairs, and the traces of the window
  from \<open>start_trace_index\<close> up to \<open>cur_traces_num\<close> that have a positive line count,
  in the order of their indices.
\<close>

definition trace_pairs :: "c_trace \<Rightarrow> rb_value" where
  "trace_pairs tr =
     Ary (map (\<lambda>n. Ary [frames_buf tr n, Fixnum (lines_buf tr n)]) [0..<nat (num_tracelines tr)])"

definition window_traces :: "('w::len, 'v::len) thread_vars \<Rightarrow> rb_value list" where
  "window_traces t =
     map trace_pairs
       (filter (\<lambda>tr. 0 < num_tracelines tr)
          (map (traces t) [unat (start_trace_index t)..<unat (cur_traces_num t)]))"

subsection \<open>States and environments used in the examples\<close>

definition zero_trace :: c_trace where
  "zero_trace = \<lparr>num_tracelines = 0, lines_buf = (\<lambda>k. 0), frames_buf = (\<lambda>k. Qfalse)\<rparr>"

text \<open>
  The thread-local variables of a thread that has just started: all zero. \<open>_traces\<close> is
  a null pointer then; the cells given here stand for no memory and are replaced by
  \<open>init_thread_vars\<close>.
\<close>

definition thread_start :: "('w::len, 'v::len) thread_vars" where
  "thread_start =
     \<lparr>traces = (\<lambda>i. zero_trace), ok_to_sample = False, in_signal_handler = False,
      start_frame_index = 0, start_trace_index = 0, cur_traces_num = 0,
      skipped_in_gc = 0, skipped_in_signal_handler = 0,
      gc_hook_registrations = 0, xfreed = [], cleanup_handlers = []\<rparr>"

text \<open>The globals when the extension has been loaded.\<close>

definition globals_start :: globals where
  "globals_start =
     \<lparr>scout_profiling_installed = 0, scout_profiling_running = 0, head_thread = [],
      background_workers = 0, cancel_requests = 0, sigvtalrm_action = Sig_default,
      const_INSTALLED = False\<rparr>"

text \<open>
  No collection running, an empty stack, a runtime that grants every capacity that is
  not negative.
\<close>

definition quiet_env :: env where
  "quiet_env =
     \<lparr>during_gc = False, stack = [], rb_ary_new2_accepts = (\<lambda>c. 0 \<le> c),
      fresh_traces = (\<lambda>i. zero_trace), frame_classpath = (\<lambda>f. Qnil)\<rparr>"

text \<open>
  A runtime whose array constructor takes its capacity as a 64-bit \<open>long\<close> and refuses
  a negative one: of an unsigned 64-bit argument it accepts the values below \<open>2 ^ 63\<close>.
\<close>

definition lp64_env :: env where
  "lp64_env = quiet_env\<lparr>rb_ary_new2_accepts := (\<lambda>c. c < 2 ^ 63)\<rparr>"

definition three_frames :: "(rb_value \<times> int) list" where
  "three_frames = [(Frame 0, 10), (Frame 1, 11), (Frame 2, 12)]"

text \<open>A timer tick that finds three frames on the stack, and one that falls into a collection.\<close>

definition tick :: env where
  "tick = quiet_env\<lparr>stack := three_frames\<rparr>"

definition gc_tick :: env where
  "gc_tick = tick\<lparr>during_gc := True\<rparr>"

text \<open>The cell a tick with three frames leaves behind when the frame index is 0.\<close>

definition one_line :: "c_trace \<Rightarrow> c_trace" where
  "one_line c = snd (rb_profile_frames three_frames BUF_SIZE c)\<lparr>num_tracelines := 1\<rparr>"

definition sample_trace :: "int \<Rightarrow> c_trace" where
  "sample_trace n =
     \<lparr>num_tracelines = n, lines_buf = (\<lambda>k. 10 + int k), frames_buf = (\<lambda>k. Frame k)\<rparr>"

text \<open>Three cells in use: one line, no line, two lines.\<close>

definition window_example :: thread_vars_64 where
  "window_example =
     init_thread_vars quiet_env thread_start
       \<lparr>traces := (\<lambda>i. zero_trace)(0 := sample_trace 1, 1 := sample_trace 0, 2 := sample_trace 2),
        cur_traces_num := 3\<rparr>"

text \<open>
  Thread 1 after \<open>add_profiled_thread\<close>; after \<open>start_sampling\<close> as well; after
  \<open>update_indexes(10, 0)\<close> and \<open>start_sampling\<close>; and sampling with a full buffer.
\<close>

definition registered_thread :: "('w::len, 'v::len) thread_vars" where
  "registered_thread =
     snd (snd (rb_scout_add_profiled_thread quiet_env 1 (globals_start, thread_start)))"

definition registered_sampling :: "('w::len, 'v::len) thread_vars" where
  "registered_sampling = snd (rb_scout_start_sampling registered_thread)"

definition sampling_from_frame_10 :: "('w::len, 'v::len) thread_vars" where
  "sampling_from_frame_10 =
     snd (rb_scout_start_sampling (snd (rb_scout_update_indexes registered_thread 10 0)))"

definition full_buffer :: "('w::len, 'v::len) thread_vars" where
  "full_buffer = registered_sampling\<lparr>cur_traces_num := 2000\<rparr>"

text \<open>A run of signals delivered to one thread, each handled before the next arrives.\<close>

fun signals :: "env list \<Rightarrow> ('w::len, 'v::len) thread_vars \<Rightarrow> ('w, 'v) thread_vars" where
  "signals [] t = t"
| "signals (e # es) t = signals es (scout_profile_broadcast_signal_handler e t)"

text \<open>
  Thread 1 samples five ticks, enters a layer at trace index 5 with
  \<open>update_indexes(0, 5)\<close>, and stops with \<open>stop_sampling(true)\<close>: no traces, and a
  window that starts at 5.
\<close>

definition reset_inside_layer :: "('w::len, 'v::len) thread_vars" where
  "reset_inside_layer =
     snd (rb_scout_stop_sampling
       (snd (rb_scout_update_indexes
          (signals [tick, tick, tick, tick, tick] registered_sampling) 0 5)) Qtrue)"

section \<open>Properties\<close>

subsection \<open>Auxiliary facts\<close>

lemma unlink_thread_absent: "th \<notin> set ps \<Longrightarrow> unlink_thread th ps = ps"
  by (induction ps) auto

text \<open>
  Every call of \<open>remove_profiled_thread\<close> ends in the \<open>xfree\<close> of the address of
  \<open>_traces\<close>, with the thread unlinked, sampling off and a collector registration
  dropped; neither \<open>return 0\<close> nor the \<open>Qtrue\<close> of the method is reached.
\<close>

lemma remove_profiled_thread_ends:
  "remove_profiled_thread self (g, t) =
     (Inl Invalid_free,
      g\<lparr>head_thread := unlink_thread self (head_thread g)\<rparr>,
      t\<lparr>ok_to_sample := False,
        gc_hook_registrations :=
          (if 0 < gc_hook_registrations t then gc_hook_registrations t - 1 else 0),
        xfreed := xfreed t @ [Addr_of_traces_variable]\<rparr>)"
  by (simp add: remove_profiled_thread_def xfree_def Let_def)

lemma rb_scout_remove_profiled_thread_ends:
  "rb_scout_remove_profiled_thread self (g, t) =
     (Invalid_free,
      g\<lparr>head_thread := unlink_thread self (head_thread g)\<rparr>,
      t\<lparr>ok_to_sample := False,
        gc_hook_registrations :=
          (if 0 < gc_hook_registrations t then gc_hook_registrations t - 1 else 0),
        xfreed := xfreed t @ [Addr_of_traces_variable]\<rparr>)"
  by (simp add: rb_scout_remove_profiled_thread_def remove_profiled_thread_ends)

lemma unat_succ_le: "unat (c + 1 :: 'a::len word) \<le> unat c + 1"
proof -
  have "unat (c + 1) = (unat c + unat (1 :: 'a word)) mod 2 ^ LENGTH('a)"
    by (simp only: unat_word_ariths)
  also have "\<dots> \<le> unat c + unat (1 :: 'a word)"
    by (rule mod_less_eq_dividend)
  finally show ?thesis by simp
qed

lemma record_sample_bound:
  assumes "unat (cur_traces_num t) \<le> MAX_TRACES"
  shows "unat (cur_traces_num (scout_record_sample e t)) \<le> MAX_TRACES"
proof (cases "unat (cur_traces_num t) < MAX_TRACES")
  case True
  have "unat (cur_traces_num t + 1) \<le> unat (cur_traces_num t) + 1"
    by (rule unat_succ_le)
  with True have "unat (cur_traces_num t + 1) \<le> MAX_TRACES" by simp
  with assms show ?thesis
    by (simp add: scout_record_sample_def Let_def split: prod.splits)
next
  case False
  with assms show ?thesis
    by (simp add: scout_record_sample_def Let_def)
qed

lemma captures_bound:
  "unat (cur_traces_num t) \<le> MAX_TRACES \<Longrightarrow>
   unat (cur_traces_num (captures es t)) \<le> MAX_TRACES"
  by (induction es arbitrary: t) (simp_all add: record_sample_bound)

text \<open>\<open>scout_record_sample\<close> neither reads nor writes the guard of the handler.\<close>

lemma record_sample_guard:
  "scout_record_sample e (t\<lparr>in_signal_handler := b\<rparr>) =
   (scout_record_sample e t)\<lparr>in_signal_handler := b\<rparr>"
  by (simp add: scout_record_sample_def Let_def split: prod.splits)

lemma record_sample_keeps_guard:
  "in_signal_handler (scout_record_sample e t) = in_signal_handler t"
  by (simp add: scout_record_sample_def Let_def split: prod.splits)

lemma signal_handler_runs_sample:
  "ok_to_sample t \<Longrightarrow> \<not> in_signal_handler t \<Longrightarrow>
   scout_profile_broadcast_signal_handler e t = scout_record_sample e t"
  using record_sample_keeps_guard [of e t]
  by (simp add: scout_profile_broadcast_signal_handler_def record_sample_guard)

text \<open>The two loops of retrieval, when every index they visit is inside its array.\<close>

lemma trace_lines_in_bounds:
  "(\<And>n. n \<in> set ns \<Longrightarrow> n < BUF_SIZE) \<Longrightarrow>
   trace_lines tr ns = Inr (map (\<lambda>n. Ary [frames_buf tr n, Fixnum (lines_buf tr n)]) ns)"
  by (induction ns) (simp_all add: not_le [symmetric])

lemma trace_lines_trace_pairs:
  assumes "num_tracelines tr \<le> int BUF_SIZE"
  shows "trace_lines tr [0..<nat (num_tracelines tr)] =
         Inr (map (\<lambda>n. Ary [frames_buf tr n, Fixnum (lines_buf tr n)])
                [0..<nat (num_tracelines tr)])"
proof (rule trace_lines_in_bounds)
  fix n assume "n \<in> set [0..<nat (num_tracelines tr)]"
  then have "n < nat (num_tracelines tr)" by simp
  with assms show "n < BUF_SIZE" by linarith
qed

lemma collect_traces_in_bounds:
  assumes "\<And>i. i \<in> set js \<Longrightarrow> i < MAX_TRACES \<and> num_tracelines (trs i) \<le> int BUF_SIZE"
    and "\<And>c. 0 < c \<Longrightarrow> c \<le> int BUF_SIZE \<Longrightarrow> rb_ary_new2_accepts e c"
  shows "collect_traces e trs js =
         Inr (map trace_pairs (filter (\<lambda>tr. 0 < num_tracelines tr) (map trs js)))"
  using assms(1)
proof (induction js)
  case Nil
  show ?case by simp
next
  case (Cons i js)
  have i: "i < MAX_TRACES" "num_tracelines (trs i) \<le> int BUF_SIZE"
    using Cons.prems [of i] by simp_all
  have rest: "collect_traces e trs js =
      Inr (map trace_pairs (filter (\<lambda>tr. 0 < num_tracelines tr) (map trs js)))"
    using Cons.IH Cons.prems by simp
  show ?case
  proof (cases "0 < num_tracelines (trs i)")
    case True
    with i rest assms(2) [of "num_tracelines (trs i)"] show ?thesis
      by (simp add: trace_lines_trace_pairs trace_pairs_def not_le [symmetric])
  next
    case False
    with i rest show ?thesis by (simp add: not_le [symmetric])
  qed
qed

text \<open>
  When the difference of the counters is not positive in C arithmetic, no index lies
  between them: in signed arithmetic \<open>cur \<le> start\<close>, in unsigned arithmetic
  \<open>cur = start\<close>.
\<close>

lemma window_empty:
  assumes "\<not> 0 < traces_minus_start cur start"
  shows "[unat start..<unat cur] = []"
proof (cases "LENGTH('a) < 32")
  case True
  with assms have "uint cur \<le> uint start" by (simp add: traces_minus_start_def)
  then have "unat cur \<le> unat start" by (simp add: word_le_def [symmetric] word_le_nat_alt)
  then show ?thesis by simp
next
  case False
  with assms have "\<not> 0 < uint (cur - start)" by (simp add: traces_minus_start_def)
  moreover have "0 \<le> uint (cur - start)" by (rule uint_ge_0)
  ultimately have "uint (cur - start) = 0" by linarith
  then have "cur - start = 0" by (simp only: uint_0_iff)
  then have "cur = start" by simp
  then show ?thesis by simp
qed

text \<open>
  With \<open>start \<le> cur\<close> the difference of the counters is the mathematical one in
  either arithmetic.
\<close>

lemma traces_minus_start_exact:
  fixes cur start :: "'w::len word"
  assumes "unat start \<le> unat cur"
  shows "traces_minus_start cur start = int (unat cur) - int (unat start)"
proof -
  from assms have "start \<le> cur" by (simp add: word_le_nat_alt)
  then have "uint (cur - start) = uint cur - uint start"
    by (simp add: uint_minus_simple_alt)
  then show ?thesis by (simp add: traces_minus_start_def)
qed

lemma profile_frames_in_bounds:
  fixes t :: "('w::len, 'v::len) thread_vars"
  assumes bound: "unat (cur_traces_num t) \<le> MAX_TRACES"
    and lines: "\<And>i. unat (start_trace_index t) \<le> i \<Longrightarrow> i < unat (cur_traces_num t) \<Longrightarrow>
           num_tracelines (traces t i) \<le> int BUF_SIZE"
    and grants: "\<And>c. 0 < c \<Longrightarrow> c \<le> int MAX_TRACES \<Longrightarrow> rb_ary_new2_accepts e c"
    and wrapped: "unat (start_trace_index t) \<le> unat (cur_traces_num t) \<or> LENGTH('w) < 32 \<or>
           rb_ary_new2_accepts e (traces_minus_start (cur_traces_num t) (start_trace_index t))"
  shows "rb_scout_profile_frames e t =
           (Return (Ary (window_traces t)), t\<lparr>cur_traces_num := start_trace_index t\<rparr>)"
proof (cases "0 < traces_minus_start (cur_traces_num t) (start_trace_index t)")
  case True
  have "collect_traces e (traces t) [unat (start_trace_index t)..<unat (cur_traces_num t)] =
        Inr (window_traces t)"
    unfolding window_traces_def
  proof (rule collect_traces_in_bounds)
    fix i assume "i \<in> set [unat (start_trace_index t)..<unat (cur_traces_num t)]"
    then have "unat (start_trace_index t) \<le> i" "i < unat (cur_traces_num t)" by simp_all
    with bound lines show "i < MAX_TRACES \<and> num_tracelines (traces t i) \<le> int BUF_SIZE"
      by auto
  next
    fix c :: int assume "0 < c" "c \<le> int BUF_SIZE"
    then show "rb_ary_new2_accepts e c"
      by (intro grants) (simp_all add: BUF_SIZE_def MAX_TRACES_def)
  qed
  moreover have "rb_ary_new2_accepts e (traces_minus_start (cur_traces_num t) (start_trace_index t))"
  proof (cases "unat (start_trace_index t) \<le> unat (cur_traces_num t)")
    case le: True
    then have eq: "traces_minus_start (cur_traces_num t) (start_trace_index t) =
        int (unat (cur_traces_num t)) - int (unat (start_trace_index t))"
      by (rule traces_minus_start_exact)
    have "int (unat (cur_traces_num t)) - int (unat (start_trace_index t)) \<le> int MAX_TRACES"
      using bound by linarith
    with eq have "traces_minus_start (cur_traces_num t) (start_trace_index t) \<le> int MAX_TRACES"
      by (simp only:)
    with True show ?thesis by (intro grants)
  next
    case gt: False
    show ?thesis
    proof (cases "LENGTH('w) < 32")
      case narrow: True
      from gt have "cur_traces_num t < start_trace_index t"
        by (simp add: word_less_nat_alt)
      then have "uint (cur_traces_num t) < uint (start_trace_index t)"
        by (simp add: word_less_def)
      with narrow have "traces_minus_start (cur_traces_num t) (start_trace_index t) < 0"
        by (simp add: traces_minus_start_def)
      with True show ?thesis by simp
    next
      case False
      with gt wrapped show ?thesis by simp
    qed
  qed
  ultimately show ?thesis
    using True by (simp add: rb_scout_profile_frames_def Let_def)
next
  case False
  then have "[unat (start_trace_index t)..<unat (cur_traces_num t)] = []"
    by (rule window_empty)
  then have "window_traces t = []"
    by (simp only: window_traces_def list.map filter.simps)
  with False show ?thesis
    by (simp add: rb_scout_profile_frames_def Let_def)
qed

text \<open>
  The two differences of \<open>scout_record_sample\<close> are the mathematical ones when the index
  type is narrower than \<open>int\<close>, or when the frame index does not exceed the number of
  frames.
\<close>

lemma frames_minus_start_exact:
  fixes sfi :: "'w::len word"
  assumes "0 \<le> nf" "nf \<le> int BUF_SIZE"
    and "LENGTH('w) < 32 \<or> uint sfi \<le> nf"
  shows "frames_minus_start nf sfi = nf - uint sfi"
proof (cases "LENGTH('w) < 32")
  case True
  then show ?thesis by (simp add: frames_minus_start_def)
next
  case False
  then have w: "32 \<le> LENGTH('w)" by simp
  have "(2::int) ^ 32 \<le> 2 ^ LENGTH('w)"
    using w by (rule power_increasing) simp
  with assms(1,2) have nf: "uint (word_of_int nf :: 'w word) = nf"
    by (simp add: uint_word_of_int BUF_SIZE_def)
  from False assms(3) have "uint sfi \<le> nf" by simp
  with nf have "sfi \<le> (word_of_int nf :: 'w word)"
    by (simp add: word_le_def)
  then have "uint ((word_of_int nf :: 'w word) - sfi) =
      uint (word_of_int nf :: 'w word) - uint sfi"
    by (simp add: uint_minus_simple_alt)
  with nf False show ?thesis by (simp add: frames_minus_start_def)
qed

lemma frames_minus_start_minus_2_exact:
  fixes sfi :: "'w::len word"
  assumes "0 \<le> nf" "nf \<le> int BUF_SIZE"
    and "2 < nf - uint sfi"
  shows "to_c_int (frames_minus_start_minus_2 nf sfi) = nf - uint sfi - 2"
proof -
  have sfi: "0 \<le> uint sfi" by (rule uint_ge_0)
  have nf: "nf \<le> 512" using assms(2) by (simp add: BUF_SIZE_def)
  have "- 2147483648 \<le> nf - uint sfi - 2" "nf - uint sfi - 2 < 2147483648"
    using assms(3) nf sfi by linarith+
  then have range: "- (2 ^ 31) \<le> nf - uint sfi - 2" "nf - uint sfi - 2 < 2 ^ 31"
    by simp_all
  have val: "frames_minus_start_minus_2 nf sfi = nf - uint sfi - 2"
  proof (cases "LENGTH('w) < 32")
    case True
    then show ?thesis by (simp add: frames_minus_start_minus_2_def)
  next
    case False
    then have w: "32 \<le> LENGTH('w)" by simp
    have big: "(2::int) ^ 32 \<le> 2 ^ LENGTH('w)"
      using w by (rule power_increasing) simp
    have "uint ((word_of_int nf :: 'w word) - sfi - 2) = (nf - uint sfi - 2) mod 2 ^ LENGTH('w)"
      by (simp add: uint_word_ariths uint_word_of_int mod_simps)
    also have "\<dots> = nf - uint sfi - 2"
    proof (rule mod_pos_pos_trivial)
      show "0 \<le> nf - uint sfi - 2" using assms(3) by linarith
      have "nf - uint sfi - 2 < 4294967296" using nf sfi by linarith
      then have "nf - uint sfi - 2 < 2 ^ 32" by simp
      with big show "nf - uint sfi - 2 < 2 ^ LENGTH('w)" by linarith
    qed
    finally show ?thesis using False by (simp add: frames_minus_start_minus_2_def)
  qed
  show ?thesis
    unfolding to_c_int_def val using range by (rule signed_take_bit_int_eq_self)
qed

text \<open>One signal on a thread that samples, with the frame index at 0.\<close>

lemma handler_tick:
  fixes t :: "('w::len, 'v::len) thread_vars"
  assumes "ok_to_sample t" "\<not> in_signal_handler t" "unat (cur_traces_num t) < MAX_TRACES"
    "start_frame_index t = 0"
  shows "scout_profile_broadcast_signal_handler tick t =
     t\<lparr>traces := (traces t)
          (unat (cur_traces_num t) := one_line (traces t (unat (cur_traces_num t)))),
       cur_traces_num := cur_traces_num t + 1\<rparr>"
proof -
  have nf: "min (length (stack tick)) BUF_SIZE = 3"
    by (simp add: tick_def three_frames_def BUF_SIZE_def)
  have a: "frames_minus_start 3 (0 :: 'w word) = 3"
    using frames_minus_start_exact [of 3 "0 :: 'w word"]
    by (simp add: BUF_SIZE_def)
  have b: "to_c_int (frames_minus_start_minus_2 3 (0 :: 'w word)) = 1"
    using frames_minus_start_minus_2_exact [of 3 "0 :: 'w word"]
    by (simp add: BUF_SIZE_def)
  have gc: "\<not> during_gc tick" by (simp add: tick_def quiet_env_def)
  have st: "stack tick = three_frames" by (simp add: tick_def)
  show ?thesis
    using assms gc a b nf
    by (simp add: signal_handler_runs_sample scout_record_sample_def one_line_def st
        rb_profile_frames_def Let_def)
qed

lemma handler_gc_tick:
  fixes t :: "('w::len, 'v::len) thread_vars"
  assumes "ok_to_sample t" "\<not> in_signal_handler t"
  shows "scout_profile_broadcast_signal_handler gc_tick t =
     t\<lparr>skipped_in_gc := skipped_in_gc t + 1\<rparr>"
  using assms
  by (simp add: signal_handler_runs_sample scout_record_sample_def gc_tick_def)

lemma registered_thread_fields:
  "\<not> ok_to_sample registered_thread" "\<not> in_signal_handler registered_thread"
  "cur_traces_num registered_thread = 0" "start_frame_index registered_thread = 0"
  "start_trace_index registered_thread = 0" "skipped_in_gc registered_thread = 0"
  "skipped_in_signal_handler registered_thread = 0"
  "traces registered_thread = (\<lambda>i. zero_trace)"
  by (simp_all add: registered_thread_def rb_scout_add_profiled_thread_def
      init_thread_vars_def thread_start_def quiet_env_def)

lemma registered_sampling_fields:
  "ok_to_sample registered_sampling" "\<not> in_signal_handler registered_sampling"
  "cur_traces_num registered_sampling = 0" "start_frame_index registered_sampling = 0"
  "start_trace_index registered_sampling = 0" "skipped_in_gc registered_sampling = 0"
  "skipped_in_signal_handler registered_sampling = 0"
  "traces registered_sampling = (\<lambda>i. zero_trace)"
  by (simp_all add: registered_sampling_def rb_scout_start_sampling_def
      registered_thread_fields)

lemma sampling_from_frame_10_fields:
  "ok_to_sample sampling_from_frame_10" "\<not> in_signal_handler sampling_from_frame_10"
  "cur_traces_num sampling_from_frame_10 = 0" "start_frame_index sampling_from_frame_10 = 10"
  "start_trace_index sampling_from_frame_10 = 0"
  "traces sampling_from_frame_10 = (\<lambda>i. zero_trace)"
  by (simp_all add: sampling_from_frame_10_def rb_scout_start_sampling_def
      rb_scout_update_indexes_def num2int_def registered_thread_fields)

lemma full_buffer_fields:
  "ok_to_sample full_buffer" "cur_traces_num full_buffer = 2000"
  "skipped_in_gc full_buffer = 0"
  by (simp_all add: full_buffer_def registered_sampling_fields)

lemma reset_inside_layer_fields_64:
  "cur_traces_num (reset_inside_layer :: thread_vars_64) = 0"
  "start_trace_index (reset_inside_layer :: thread_vars_64) = 5"
  "\<not> ok_to_sample (reset_inside_layer :: thread_vars_64)"
  by (simp_all add: reset_inside_layer_def rb_scout_stop_sampling_def
      rb_scout_update_indexes_def num2int_def handler_tick registered_sampling_fields(1-7)
      MAX_TRACES_def)

lemma reset_inside_layer_fields_16:
  "cur_traces_num (reset_inside_layer :: thread_vars_16) = 0"
  "start_trace_index (reset_inside_layer :: thread_vars_16) = 5"
  "\<not> ok_to_sample (reset_inside_layer :: thread_vars_16)"
  by (simp_all add: reset_inside_layer_def rb_scout_stop_sampling_def
      rb_scout_update_indexes_def num2int_def handler_tick registered_sampling_fields(1-7)
      MAX_TRACES_def)

lemma one_line_window: "trace_pairs (one_line c) = Ary [Ary [Frame 0, Fixnum 10]]"
  by (simp add: trace_pairs_def one_line_def rb_profile_frames_def three_frames_def BUF_SIZE_def)

lemma one_line_count: "num_tracelines (one_line c) = 1"
  by (simp add: one_line_def)

subsection \<open>C1: acceptance of a captured stack\<close>

text \<open>
  Claim C1. With sampling enabled, no collection in progress and room in the buffer, a
  captured stack is accepted exactly when the number of frames minus
  \<open>start_frame_index\<close> exceeds 2; an accepted stack is stored with
  \<open>num_tracelines\<close> that difference minus 2 and \<open>cur_traces_num\<close> is incremented by
  one. With a collection in progress nothing is stored and \<open>skipped_in_gc\<close> is
  incremented by one.

  The code computes the difference in the C type of its operands. Where
  \<open>uint_fast16_t\<close> is a 64-bit \<open>unsigned long\<close> (glibc on x86-64), three frames
  against a frame index of 10 give \<open>3 - 10 = 2 ^ 64 - 7\<close>, which exceeds 2: the stack
  is accepted although \<open>3 - 10 = - 7\<close> does not exceed 2, \<open>cur_traces_num\<close> goes
  from 0 to 1 and the cell gets the line count \<open>- 9\<close>.
\<close>

theorem record_sample_wrapped_difference:
  "ok_to_sample (sampling_from_frame_10 :: thread_vars_64) \<and>
   \<not> during_gc tick \<and>
   unat (cur_traces_num (sampling_from_frame_10 :: thread_vars_64)) = 0 \<and>
   int (length (stack tick)) - uint (start_frame_index (sampling_from_frame_10 :: thread_vars_64)) =
     - 7 \<and>
   unat (cur_traces_num (scout_record_sample tick (sampling_from_frame_10 :: thread_vars_64))) =
     1 \<and>
   num_tracelines (traces (scout_record_sample tick (sampling_from_frame_10 :: thread_vars_64)) 0) =
     - 9"
  by (simp add: scout_record_sample_def rb_profile_frames_def frames_minus_start_def
      frames_minus_start_minus_2_def to_c_int_def MAX_TRACES_def BUF_SIZE_def
      sampling_from_frame_10_fields tick_def quiet_env_def three_frames_def Let_def)

text \<open>
  The same input where \<open>uint_fast16_t\<close> has 16 bits: the operands are promoted to
  \<open>int\<close>, the difference is \<open>- 7\<close> and the stack is rejected.
\<close>

lemma record_sample_narrow_rejects:
  "unat (cur_traces_num (scout_record_sample tick (sampling_from_frame_10 :: thread_vars_16))) = 0"
  by (simp add: scout_record_sample_def rb_profile_frames_def frames_minus_start_def
      frames_minus_start_minus_2_def to_c_int_def MAX_TRACES_def BUF_SIZE_def
      sampling_from_frame_10_fields tick_def quiet_env_def three_frames_def Let_def)

text \<open>
  What holds on every platform: when the index type is narrower than \<open>int\<close>, or the
  frame index does not exceed the number of frames captured, the stack is accepted
  (\<open>cur_traces_num\<close> incremented by one, otherwise left as it is) exactly when the
  number of frames minus the frame index exceeds 2, and the accepted cell gets that
  difference minus 2 as its line count. With a collection in progress nothing is
  stored and \<open>skipped_in_gc\<close> is incremented by one (in the arithmetic of the counter).
\<close>

theorem record_sample_exact:
  fixes t :: "('w::len, 'v::len) thread_vars"
  assumes "ok_to_sample t" and "unat (cur_traces_num t) < MAX_TRACES"
    and "LENGTH('w) < 32 \<or>
         uint (start_frame_index t) \<le> int (min (length (stack e)) BUF_SIZE)"
  shows "(during_gc e \<longrightarrow>
            scout_record_sample e t = t\<lparr>skipped_in_gc := skipped_in_gc t + 1\<rparr>) \<and>
         (\<not> during_gc e \<longrightarrow>
            ((cur_traces_num (scout_record_sample e t) = cur_traces_num t + 1) =
               (2 < int (min (length (stack e)) BUF_SIZE) - uint (start_frame_index t))) \<and>
            (cur_traces_num (scout_record_sample e t) = cur_traces_num t + 1 \<or>
             cur_traces_num (scout_record_sample e t) = cur_traces_num t) \<and>
            (2 < int (min (length (stack e)) BUF_SIZE) - uint (start_frame_index t) \<longrightarrow>
               num_tracelines (traces (scout_record_sample e t) (unat (cur_traces_num t))) =
                 int (min (length (stack e)) BUF_SIZE) - uint (start_frame_index t) - 2))"
proof -
  let ?nf = "int (min (length (stack e)) BUF_SIZE)"
  have gc: "scout_record_sample e t = t\<lparr>skipped_in_gc := skipped_in_gc t + 1\<rparr>"
    if "during_gc e"
    using that assms(1) by (simp add: scout_record_sample_def)
  have fms: "frames_minus_start ?nf (start_frame_index t) = ?nf - uint (start_frame_index t)"
    using assms(3) by (intro frames_minus_start_exact) simp_all
  have iff: "(cur_traces_num (scout_record_sample e t) = cur_traces_num t + 1) =
           (2 < ?nf - uint (start_frame_index t))"
    if "\<not> during_gc e"
    using that assms(1,2) fms
    by (simp add: scout_record_sample_def rb_profile_frames_def Let_def)
  have either: "cur_traces_num (scout_record_sample e t) = cur_traces_num t + 1 \<or>
         cur_traces_num (scout_record_sample e t) = cur_traces_num t"
    if "\<not> during_gc e"
    using that assms(1,2)
    by (simp add: scout_record_sample_def rb_profile_frames_def Let_def)
  have lines: "num_tracelines (traces (scout_record_sample e t) (unat (cur_traces_num t))) =
           ?nf - uint (start_frame_index t) - 2"
    if "\<not> during_gc e" "2 < ?nf - uint (start_frame_index t)"
  proof -
    have "to_c_int (frames_minus_start_minus_2 ?nf (start_frame_index t)) =
          ?nf - uint (start_frame_index t) - 2"
      using that(2) by (intro frames_minus_start_minus_2_exact) simp_all
    with assms(1,2) fms that show ?thesis
      by (simp add: scout_record_sample_def rb_profile_frames_def Let_def)
  qed
  show ?thesis using gc iff either lines by blast
qed

theorem record_sample_exact_witness:
  "ok_to_sample (registered_sampling :: thread_vars_64) \<and>
   \<not> during_gc tick \<and>
   num_tracelines (traces (scout_record_sample tick (registered_sampling :: thread_vars_64))
     (unat (cur_traces_num (registered_sampling :: thread_vars_64)))) =
     int (min (length (stack tick)) BUF_SIZE) -
       uint (start_frame_index (registered_sampling :: thread_vars_64)) - 2 \<and>
   int (min (length (stack tick)) BUF_SIZE) -
       uint (start_frame_index (registered_sampling :: thread_vars_64)) - 2 = 1"
proof -
  let ?t = "registered_sampling :: thread_vars_64"
  have h1: "ok_to_sample ?t" by (simp add: registered_sampling_fields)
  have h2: "unat (cur_traces_num ?t) < MAX_TRACES"
    by (simp add: registered_sampling_fields MAX_TRACES_def)
  have h3: "LENGTH(64) < 32 \<or>
      uint (start_frame_index ?t) \<le> int (min (length (stack tick)) BUF_SIZE)"
    by (simp add: registered_sampling_fields)
  have h4: "\<not> during_gc tick"
    by (simp add: tick_def quiet_env_def)
  have h5: "int (min (length (stack tick)) BUF_SIZE) - uint (start_frame_index ?t) - 2 = 1"
    by (simp add: tick_def three_frames_def BUF_SIZE_def registered_sampling_fields)
  have h6: "2 < int (min (length (stack tick)) BUF_SIZE) - uint (start_frame_index ?t)"
    using h5 by linarith
  from record_sample_exact [OF h1 h2 h3, of] h1 h4 h5 h6
  show ?thesis by blast
qed

subsection \<open>C2: what retrieval returns\<close>

text \<open>
  Claim C2. For every state of a thread's buffer, \<open>profile_frames\<close> returns exactly the
  traces with index from \<open>start_trace_index\<close> up to (not including) \<open>cur_traces_num\<close>
  whose line count is positive, in the order of their indices, each as the sequence of
  its \<open>[frame, line]\<close> pairs; afterwards \<open>cur_traces_num\<close> equals
  \<open>start_trace_index\<close>.

  The code tests \<open>cur_traces_num - start_trace_index > 0\<close> in the C type of the
  counters. Where \<open>uint_fast16_t\<close> is a 64-bit \<open>unsigned long\<close> and
  \<open>start_trace_index\<close> is above \<open>cur_traces_num\<close>, the difference wraps around and is
  positive, and the array of traces is requested with the wrapped difference as its
  capacity. A thread that has sampled five ticks, entered a layer at trace index 5 and
  stopped with a reset has no traces and a window that starts at 5: the window is
  empty, but \<open>0 - 5\<close> is \<open>2 ^ 64 - 5\<close>, a runtime that refuses a capacity that is
  negative as a \<open>long\<close> raises \<open>ArgumentError\<close>, and the store to \<open>cur_traces_num\<close>
  is not reached: the number of traces stays 0 instead of becoming 5.
\<close>

theorem profile_frames_wrapped_window:
  "unat (cur_traces_num (reset_inside_layer :: thread_vars_64)) = 0 \<and>
   unat (start_trace_index (reset_inside_layer :: thread_vars_64)) = 5 \<and>
   window_traces (reset_inside_layer :: thread_vars_64) = [] \<and>
   traces_minus_start (cur_traces_num (reset_inside_layer :: thread_vars_64))
     (start_trace_index (reset_inside_layer :: thread_vars_64)) = 2 ^ 64 - 5 \<and>
   rb_scout_profile_frames lp64_env (reset_inside_layer :: thread_vars_64) =
     (Raise ArgumentError, reset_inside_layer) \<and>
   unat (cur_traces_num (snd (rb_scout_profile_frames lp64_env
      (reset_inside_layer :: thread_vars_64)))) = 0"
  by (simp add: rb_scout_profile_frames_def traces_minus_start_def window_traces_def
      reset_inside_layer_fields_64 lp64_env_def quiet_env_def Let_def)

text \<open>
  The same thread where \<open>uint_fast16_t\<close> has 16 bits: the counters are promoted to
  \<open>int\<close>, the difference is \<open>- 5\<close>, and the call returns the empty array and sets the
  number of traces to 5.
\<close>

lemma profile_frames_narrow_empty_window:
  "rb_scout_profile_frames lp64_env (reset_inside_layer :: thread_vars_16) =
     (Return (Ary []), (reset_inside_layer :: thread_vars_16)\<lparr>cur_traces_num := 5\<rparr>)"
  by (simp add: rb_scout_profile_frames_def traces_minus_start_def
      reset_inside_layer_fields_16 Let_def)

text \<open>
  What holds on every platform. A state of the buffer has at most \<open>MAX_TRACES\<close> traces,
  and the traces of the window have at most \<open>BUF_SIZE\<close> lines (outside these bounds the
  loops read past the arrays); the runtime is supposed to grant arrays of up to
  \<open>MAX_TRACES\<close> elements. Then \<open>profile_frames\<close> returns the traces of the window and
  sets \<open>cur_traces_num\<close> to \<open>start_trace_index\<close> whenever \<open>start_trace_index\<close> is
  not above \<open>cur_traces_num\<close>, or the index type is narrower than \<open>int\<close>, or the
  runtime grants the wrapped capacity.
\<close>

theorem profile_frames_window:
  fixes t :: "('w::len, 'v::len) thread_vars"
  assumes "unat (cur_traces_num t) \<le> MAX_TRACES"
    and "\<forall>i. unat (start_trace_index t) \<le> i \<and> i < unat (cur_traces_num t) \<longrightarrow>
           num_tracelines (traces t i) \<le> int BUF_SIZE"
    and "\<forall>c. 0 < c \<and> c \<le> int MAX_TRACES \<longrightarrow> rb_ary_new2_accepts e c"
    and "unat (start_trace_index t) \<le> unat (cur_traces_num t) \<or> LENGTH('w) < 32 \<or>
           rb_ary_new2_accepts e (traces_minus_start (cur_traces_num t) (start_trace_index t))"
  shows "rb_scout_profile_frames e t =
           (Return (Ary (window_traces t)), t\<lparr>cur_traces_num := start_trace_index t\<rparr>) \<and>
         cur_traces_num (snd (rb_scout_profile_frames e t)) = start_trace_index t"
proof -
  have "rb_scout_profile_frames e t =
           (Return (Ary (window_traces t)), t\<lparr>cur_traces_num := start_trace_index t\<rparr>)"
    using assms by (intro profile_frames_in_bounds) simp_all
  then show ?thesis by simp
qed

theorem profile_frames_window_witness:
  "rb_scout_profile_frames lp64_env window_example =
     (Return (Ary [Ary [Ary [Frame 0, Fixnum 10]],
                   Ary [Ary [Frame 0, Fixnum 10], Ary [Frame 1, Fixnum 11]]]),
      window_example\<lparr>cur_traces_num := start_trace_index window_example\<rparr>)"
proof -
  have h1: "unat (cur_traces_num window_example) \<le> MAX_TRACES"
    by (simp add: window_example_def init_thread_vars_def MAX_TRACES_def)
  have h2: "\<forall>i. unat (start_trace_index window_example) \<le> i \<and>
                i < unat (cur_traces_num window_example) \<longrightarrow>
           num_tracelines (traces window_example i) \<le> int BUF_SIZE"
    by (simp add: window_example_def init_thread_vars_def BUF_SIZE_def sample_trace_def
        zero_trace_def)
  have h3: "\<forall>c. 0 < c \<and> c \<le> int MAX_TRACES \<longrightarrow> rb_ary_new2_accepts lp64_env c"
    by (simp add: lp64_env_def MAX_TRACES_def)
  have h4: "unat (start_trace_index window_example) \<le> unat (cur_traces_num window_example) \<or>
      LENGTH(64) < 32 \<or>
      rb_ary_new2_accepts lp64_env
        (traces_minus_start (cur_traces_num window_example) (start_trace_index window_example))"
    by (simp add: window_example_def init_thread_vars_def)
  have "window_traces window_example =
     [Ary [Ary [Frame 0, Fixnum 10]],
      Ary [Ary [Frame 0, Fixnum 10], Ary [Frame 1, Fixnum 11]]]"
    by (simp add: window_traces_def window_example_def init_thread_vars_def thread_start_def
      trace_pairs_def sample_trace_def zero_trace_def upt_rec)
  with profile_frames_window [OF h1 h2 h3 h4] show ?thesis by simp
qed

subsection \<open>C3: the buffer never grows past its capacity\<close>

text \<open>
  Claim C3, amended. From a state with at most \<open>MAX_TRACES\<close> traces (after
  \<open>init_thread_vars\<close> there are none), every run of capture attempts leaves at most
  \<open>MAX_TRACES\<close> traces, after each attempt of the run. A capture attempt that finds the
  buffer full while no collection is in progress changes nothing: no cell, no counter.
  One that finds the buffer full during a collection, on a sampling thread, increments
  \<open>skipped_in_gc\<close> (the test for a collection comes before the test for room) and
  changes nothing else.
\<close>

theorem capture_capacity:
  "(unat (cur_traces_num t) \<le> MAX_TRACES \<longrightarrow>
      unat (cur_traces_num (captures es t)) \<le> MAX_TRACES) \<and>
   (unat (cur_traces_num t) = MAX_TRACES \<and> \<not> during_gc e \<longrightarrow>
      scout_record_sample e t = t) \<and>
   (unat (cur_traces_num t) = MAX_TRACES \<and> during_gc e \<and> ok_to_sample t \<longrightarrow>
      scout_record_sample e t = t\<lparr>skipped_in_gc := skipped_in_gc t + 1\<rparr>)"
  by (simp add: captures_bound) (simp add: scout_record_sample_def Let_def)

theorem capture_capacity_witness:
  "unat (cur_traces_num (full_buffer :: thread_vars_64)) = MAX_TRACES \<and>
   \<not> during_gc tick \<and>
   scout_record_sample tick (full_buffer :: thread_vars_64) = full_buffer \<and>
   unat (cur_traces_num (captures [tick, gc_tick, tick] (full_buffer :: thread_vars_64))) \<le>
     MAX_TRACES"
proof -
  have h1: "unat (cur_traces_num (full_buffer :: thread_vars_64)) = MAX_TRACES"
    by (simp add: full_buffer_fields MAX_TRACES_def)
  have h2: "\<not> during_gc tick"
    by (simp add: tick_def quiet_env_def)
  have h3: "unat (cur_traces_num (full_buffer :: thread_vars_64)) \<le> MAX_TRACES"
    by (simp add: full_buffer_fields MAX_TRACES_def)
  from capture_capacity [of "full_buffer :: thread_vars_64" "[tick, gc_tick, tick]" tick]
    h1 h2 h3
  show ?thesis by blast
qed

text \<open>
  Claim C3 as stated says that an attempt arriving at a full buffer increments no
  counter. A sampling thread with a full buffer that is signalled during a collection
  has \<open>skipped_in_gc\<close> go from 0 to 1.
\<close>

theorem capture_at_capacity_during_gc:
  "unat (cur_traces_num (full_buffer :: thread_vars_64)) = MAX_TRACES \<and>
   skipped_in_gc (full_buffer :: thread_vars_64) = 0 \<and>
   skipped_in_gc (scout_record_sample gc_tick (full_buffer :: thread_vars_64)) = 1"
  by (simp add: scout_record_sample_def MAX_TRACES_def full_buffer_fields gc_tick_def)

subsection \<open>C4: removing a thread that is not in the list\<close>

text \<open>
  Claim C4. A call of \<open>remove_profiled_thread\<close> by a thread that is not in the list
  returns false and changes nothing: not the list, not the buffer, not the collector
  registration.

  The comment on \<open>remove_profiled_thread\<close> says the same of the empty list: "if the
  linked list is empty, this is a noop". The code clears \<open>ok_to_sample\<close>, asks the
  collector to drop the registration and calls \<open>xfree(&_traces)\<close> whether or not
  the walk has found the thread. With the list empty, a thread that has called
  \<open>start_sampling\<close> finds \<open>ok_to_sample\<close> cleared, and the call ends in the
  \<open>xfree\<close> of the address of a thread-local variable: it does not return false, and
  the \<open>Qtrue\<close> the method would return is not false either.
\<close>

theorem remove_absent_thread_not_noop:
  "head_thread globals_start = [] \<and>
   ok_to_sample (snd (rb_scout_start_sampling (thread_start :: thread_vars_64))) \<and>
   rb_scout_remove_profiled_thread 1
       (globals_start, snd (rb_scout_start_sampling (thread_start :: thread_vars_64))) =
     (Invalid_free, globals_start,
      (thread_start :: thread_vars_64)\<lparr>xfreed := [Addr_of_traces_variable]\<rparr>) \<and>
   \<not> ok_to_sample ((thread_start :: thread_vars_64)\<lparr>xfreed := [Addr_of_traces_variable]\<rparr>) \<and>
   Invalid_free \<noteq> Return Qfalse"
  by (simp add: rb_scout_remove_profiled_thread_ends rb_scout_start_sampling_def
      globals_start_def thread_start_def)

text \<open>
  What does hold for a thread that is not in the list: the list and the other globals
  are as they were when the call ends, and of the thread's variables only
  \<open>ok_to_sample\<close>, the collector registration and the record of \<open>xfree\<close> calls have
  changed.
\<close>

lemma remove_absent_thread:
  assumes "self \<notin> set (head_thread g)"
  shows "rb_scout_remove_profiled_thread self (g, t) =
           (Invalid_free, g,
            t\<lparr>ok_to_sample := False,
              gc_hook_registrations :=
                (if 0 < gc_hook_registrations t then gc_hook_registrations t - 1 else 0),
              xfreed := xfreed t @ [Addr_of_traces_variable]\<rparr>)"
  using assms by (simp add: rb_scout_remove_profiled_thread_ends unlink_thread_absent)

subsection \<open>C5: which methods change the number of traces\<close>




subsection \<open>C6: stopping with and without a reset\<close>

text \<open>
  Claim C6. For every state, \<open>stop_sampling(true)\<close> sets \<open>cur_traces_num\<close>,
  \<open>skipped_in_gc\<close> and \<open>skipped_in_signal_handler\<close> to 0, and \<open>stop_sampling(false)\<close>
  leaves the three as they are; both clear \<open>ok_to_sample\<close>, return true and change
  nothing else.
\<close>

theorem stop_sampling_reset:
  "rb_scout_stop_sampling t Qtrue =
     (Return Qtrue,
      t\<lparr>ok_to_sample := False, cur_traces_num := 0, skipped_in_gc := 0,
        skipped_in_signal_handler := 0\<rparr>) \<and>
   rb_scout_stop_sampling t Qfalse = (Return Qtrue, t\<lparr>ok_to_sample := False\<rparr>) \<and>
   cur_traces_num (snd (rb_scout_stop_sampling t Qfalse)) = cur_traces_num t \<and>
   skipped_in_gc (snd (rb_scout_stop_sampling t Qfalse)) = skipped_in_gc t \<and>
   skipped_in_signal_handler (snd (rb_scout_stop_sampling t Qfalse)) =
     skipped_in_signal_handler t"
  by (simp add: rb_scout_stop_sampling_def)

subsection \<open>C7: the signal handler and its guard\<close>

text \<open>
  Claim C7. In every state of a thread the handler does the following. When
  \<open>ok_to_sample\<close> is false it changes nothing. Otherwise, when \<open>in_signal_handler\<close> is
  set, it increments \<open>skipped_in_signal_handler\<close> by one (in the arithmetic of the
  counter) and changes nothing else: no cell, no trace count. Otherwise it sets the
  guard, runs \<open>scout_record_sample\<close> and clears the guard, which comes to the effect of
  \<open>scout_record_sample\<close> alone. So a second signal delivered while the guard is held
  by a first one adds one to \<open>skipped_in_signal_handler\<close> and captures nothing.
\<close>

theorem signal_handler_cases:
  "(\<not> ok_to_sample t \<longrightarrow> scout_profile_broadcast_signal_handler e t = t) \<and>
   (ok_to_sample t \<and> in_signal_handler t \<longrightarrow>
      scout_profile_broadcast_signal_handler e t =
        t\<lparr>skipped_in_signal_handler := skipped_in_signal_handler t + 1\<rparr>) \<and>
   (ok_to_sample t \<and> \<not> in_signal_handler t \<longrightarrow>
      scout_profile_broadcast_signal_handler e t =
        (scout_record_sample e (t\<lparr>in_signal_handler := True\<rparr>))\<lparr>in_signal_handler := False\<rparr> \<and>
      scout_profile_broadcast_signal_handler e t = scout_record_sample e t \<and>
      \<not> in_signal_handler (scout_profile_broadcast_signal_handler e t)) \<and>
   (ok_to_sample t \<longrightarrow>
      scout_profile_broadcast_signal_handler e' (t\<lparr>in_signal_handler := True\<rparr>) =
        t\<lparr>in_signal_handler := True,
          skipped_in_signal_handler := skipped_in_signal_handler t + 1\<rparr>)"
proof -
  have g: "in_signal_handler (scout_record_sample e t) = in_signal_handler t"
    by (rule record_sample_keeps_guard)
  show ?thesis
    using g by (simp add: scout_profile_broadcast_signal_handler_def record_sample_guard)
qed

theorem signal_handler_cases_witness:
  "ok_to_sample ((registered_sampling :: thread_vars_64)\<lparr>in_signal_handler := True\<rparr>) \<and>
   in_signal_handler ((registered_sampling :: thread_vars_64)\<lparr>in_signal_handler := True\<rparr>) \<and>
   scout_profile_broadcast_signal_handler tick
      ((registered_sampling :: thread_vars_64)\<lparr>in_signal_handler := True\<rparr>) =
     (registered_sampling :: thread_vars_64)
        \<lparr>in_signal_handler := True,
         skipped_in_signal_handler :=
           skipped_in_signal_handler (registered_sampling :: thread_vars_64) + 1\<rparr>"
proof -
  have h: "ok_to_sample (registered_sampling :: thread_vars_64)"
    by (simp add: registered_sampling_fields)
  from signal_handler_cases [of "registered_sampling :: thread_vars_64" tick tick] h
  show ?thesis by simp
qed

subsection \<open>C8: installing once\<close>

text \<open>
  Claim C8. The first call of \<open>install\<close>, with \<open>scout_profiling_installed\<close> at 0,
  returns true, starts one thread on \<open>background_worker\<close>, installs the handler for
  \<open>SIGVTALRM\<close>, defines \<open>INSTALLED\<close> and sets \<open>scout_profiling_installed\<close>; a second
  call right after it returns false and changes nothing. Once the flag is set no method
  clears it, and every call of \<open>install\<close> with the flag set returns false and changes
  nothing.
\<close>

theorem install_once:
  "(scout_profiling_installed g = 0 \<longrightarrow>
      rb_scout_install_profiling g =
        (Return Qtrue,
         g\<lparr>background_workers := background_workers g + 1,
           sigvtalrm_action := Scout_profile_broadcast_signal_handler,
           const_INSTALLED := True,
           scout_profiling_installed := 1\<rparr>) \<and>
      rb_scout_install_profiling (snd (rb_scout_install_profiling g)) =
        (Return Qfalse, snd (rb_scout_install_profiling g))) \<and>
   (scout_profiling_installed g \<noteq> 0 \<longrightarrow>
      rb_scout_install_profiling g = (Return Qfalse, g) \<and>
      scout_profiling_installed (fst (snd (call e self m (g, t)))) \<noteq> 0)"
proof -
  have keep: "scout_profiling_installed (fst (snd (call e self m (g, t)))) \<noteq> 0"
    if "scout_profiling_installed g \<noteq> 0"
    using that
    by (cases m)
      (simp_all add: rb_scout_install_profiling_def rb_scout_uninstall_profiling_def
        rb_scout_start_profiling_def rb_scout_add_profiled_thread_def
        rb_scout_remove_profiled_thread_ends
        split: prod.splits)
  show ?thesis
    using keep by (simp add: rb_scout_install_profiling_def)
qed

theorem install_once_witness:
  "scout_profiling_installed globals_start = 0 \<and>
   rb_scout_install_profiling globals_start =
     (Return Qtrue,
      globals_start\<lparr>background_workers := background_workers globals_start + 1,
        sigvtalrm_action := Scout_profile_broadcast_signal_handler,
        const_INSTALLED := True, scout_profiling_installed := 1\<rparr>) \<and>
   rb_scout_install_profiling (snd (rb_scout_install_profiling globals_start)) =
     (Return Qfalse, snd (rb_scout_install_profiling globals_start))"
proof -
  have h: "scout_profiling_installed globals_start = 0"
    by (simp add: globals_start_def)
  from install_once [of globals_start quiet_env 1 Install "thread_start :: thread_vars_64"] h
  show ?thesis by blast
qed

subsection \<open>C9: a registered thread that exits\<close>

text \<open>
  Claim C9. Every registered thread runs the cleanup on every exit path, through a hook
  of the exit path, so that no list entry, collector registration or buffer is left
  behind.

  The comment on \<open>thread_cleanup_handler\<close> says that it is pushed onto every registered
  thread's cancellation cleanup handlers. The only \<open>pthread_cleanup_push\<close> of the
  source is commented out, so registration pushes nothing: thread 1 registers and
  exits, no cleanup runs, and the thread is still in the list, its collector
  registration is still in place and \<open>xfree\<close> has not been called.
\<close>

theorem registered_thread_exit_leaks:
  "thread_exit 1 (snd (rb_scout_add_profiled_thread quiet_env 1
        (globals_start, thread_start :: thread_vars_64))) =
     snd (rb_scout_add_profiled_thread quiet_env 1
        (globals_start, thread_start :: thread_vars_64)) \<and>
   cleanup_handlers (snd (snd (rb_scout_add_profiled_thread quiet_env 1
        (globals_start, thread_start :: thread_vars_64)))) = [] \<and>
   head_thread (fst (thread_exit 1 (snd (rb_scout_add_profiled_thread quiet_env 1
        (globals_start, thread_start :: thread_vars_64))))) = [1] \<and>
   gc_hook_registrations (snd (thread_exit 1 (snd (rb_scout_add_profiled_thread quiet_env 1
        (globals_start, thread_start :: thread_vars_64))))) = 1 \<and>
   xfreed (snd (thread_exit 1 (snd (rb_scout_add_profiled_thread quiet_env 1
        (globals_start, thread_start :: thread_vars_64))))) = []"
  by (simp add: rb_scout_add_profiled_thread_def init_thread_vars_def thread_exit_def
      globals_start_def thread_start_def)

text \<open>Registration leaves the cleanup handlers of any thread as they were.\<close>

lemma add_profiled_thread_pushes_no_cleanup:
  "cleanup_handlers (snd (snd (rb_scout_add_profiled_thread e self (g, t)))) =
   cleanup_handlers t"
  by (simp add: rb_scout_add_profiled_thread_def init_thread_vars_def)

text \<open>
  Had the handler been pushed, the exit would have run it: the thread leaves the list,
  the collector registration is dropped, and the handler ends in the \<open>xfree\<close> of the
  address of \<open>_traces\<close>.
\<close>

lemma pushed_handler_would_run:
  "run_cleanup_handlers 1 [Thread_cleanup_handler]
      (snd (rb_scout_add_profiled_thread quiet_env 1
         (globals_start, thread_start :: thread_vars_64))) =
     (Some Invalid_free,
      globals_start,
      (init_thread_vars quiet_env (thread_start :: thread_vars_64))
        \<lparr>gc_hook_registrations := 0, xfreed := [Addr_of_traces_variable]\<rparr>)"
  by (simp add: rb_scout_add_profiled_thread_def init_thread_vars_def
      thread_cleanup_handler_def remove_profiled_thread_ends globals_start_def thread_start_def)

subsection \<open>C10: indexes are stored unchecked\<close>

text \<open>
  Claim C10, amended. \<open>update_indexes\<close> converts its arguments to \<open>int\<close> and stores
  them in the index type, with no check against \<open>cur_traces_num\<close> or \<open>MAX_TRACES\<close>.
  For every trace index \<open>ti\<close> above the current number of traces that fits both
  \<open>int\<close> and the index type (\<open>ti\<close> may exceed \<open>MAX_TRACES\<close>), and every frame index
  that fits \<open>int\<close>, \<open>update_indexes\<close> returns true and stores \<open>ti\<close>, and a call of
  \<open>profile_frames\<close> after it reads no cell. Where the index type is narrower than
  \<open>int\<close>, or the runtime grants an array whose capacity is the wrapped difference of
  the two counters, \<open>profile_frames\<close> returns the empty array and sets
  \<open>cur_traces_num\<close> to \<open>ti\<close>. Where the index type is at least as wide as \<open>int\<close> and
  the runtime refuses that capacity, \<open>profile_frames\<close> raises \<open>ArgumentError\<close> and
  changes nothing.
\<close>

theorem update_indexes_unchecked:
  fixes t :: "('w::len, 'v::len) thread_vars"
  assumes "uint (cur_traces_num t) < ti" and "ti < 2 ^ 31" and "ti < 2 ^ LENGTH('w)"
    and "- (2 ^ 31) \<le> fi" and "fi < 2 ^ 31"
  shows "(let t1 = t\<lparr>start_trace_index := word_of_int ti, start_frame_index := word_of_int fi\<rparr> in
          rb_scout_update_indexes t fi ti = (Return Qtrue, t1) \<and>
          uint (start_trace_index t1) = ti \<and>
          (LENGTH('w) < 32 \<or>
           rb_ary_new2_accepts e (traces_minus_start (cur_traces_num t1) (start_trace_index t1)) \<longrightarrow>
             rb_scout_profile_frames e t1 =
               (Return (Ary []), t1\<lparr>cur_traces_num := word_of_int ti\<rparr>) \<and>
             uint (cur_traces_num (snd (rb_scout_profile_frames e t1))) = ti) \<and>
          (\<not> LENGTH('w) < 32 \<and>
           \<not> rb_ary_new2_accepts e (traces_minus_start (cur_traces_num t1) (start_trace_index t1)) \<longrightarrow>
             rb_scout_profile_frames e t1 = (Raise ArgumentError, t1)))"
proof -
  define t1 where
    "t1 = t\<lparr>start_trace_index := word_of_int ti, start_frame_index := word_of_int fi\<rparr>"
  have pos: "0 \<le> ti"
    using assms(1) uint_ge_0 [of "cur_traces_num t"] by linarith
  have upd: "rb_scout_update_indexes t fi ti = (Return Qtrue, t1)"
    using assms(2,4,5) pos by (simp add: rb_scout_update_indexes_def num2int_def t1_def)
  have start: "uint (start_trace_index t1) = ti"
    using pos assms(3) by (simp add: t1_def uint_word_of_int)
  have cur: "cur_traces_num t1 = cur_traces_num t"
    by (simp add: t1_def)
  have lt: "uint (cur_traces_num t1) < uint (start_trace_index t1)"
    using assms(1) start cur by simp
  then have lt': "cur_traces_num t1 < start_trace_index t1"
    by (simp add: word_less_def)
  have empty: "[unat (start_trace_index t1)..<unat (cur_traces_num t1)] = []"
    using lt' by (simp add: word_less_nat_alt)
  have narrow:
    "rb_scout_profile_frames e t1 = (Return (Ary []), t1\<lparr>cur_traces_num := word_of_int ti\<rparr>)"
    if "LENGTH('w) < 32"
    using that lt
    by (simp add: rb_scout_profile_frames_def traces_minus_start_def Let_def t1_def)
  have ne: "0 < uint (cur_traces_num t1 - start_trace_index t1)"
  proof -
    have "cur_traces_num t1 - start_trace_index t1 \<noteq> 0" using lt' by simp
    then have "uint (cur_traces_num t1 - start_trace_index t1) \<noteq> 0"
      by (simp only: uint_0_iff) simp
    moreover have "0 \<le> uint (cur_traces_num t1 - start_trace_index t1)" by (rule uint_ge_0)
    ultimately show ?thesis by linarith
  qed
  have none:
    "collect_traces e (traces t1) [unat (start_trace_index t1)..<unat (cur_traces_num t1)] = Inr []"
    by (simp only: empty collect_traces.simps)
  have st: "start_trace_index t1 = word_of_int ti"
    by (simp add: t1_def)
  have wide_ok:
    "rb_scout_profile_frames e t1 = (Return (Ary []), t1\<lparr>cur_traces_num := word_of_int ti\<rparr>)"
    if "\<not> LENGTH('w) < 32"
      "rb_ary_new2_accepts e (traces_minus_start (cur_traces_num t1) (start_trace_index t1))"
  proof -
    have "0 < traces_minus_start (cur_traces_num t1) (start_trace_index t1)"
      using that(1) ne by (simp add: traces_minus_start_def)
    with that(2) none show ?thesis
      unfolding rb_scout_profile_frames_def Let_def by (simp add: st)
  qed
  have wide_refused: "rb_scout_profile_frames e t1 = (Raise ArgumentError, t1)"
    if "\<not> LENGTH('w) < 32"
      "\<not> rb_ary_new2_accepts e (traces_minus_start (cur_traces_num t1) (start_trace_index t1))"
    using that ne
    by (simp add: rb_scout_profile_frames_def traces_minus_start_def Let_def)
  have after: "uint (cur_traces_num (t1\<lparr>cur_traces_num := word_of_int ti\<rparr>)) = ti"
    using pos assms(3) by (simp add: uint_word_of_int)
  show ?thesis
    unfolding Let_def t1_def [symmetric]
    using upd start narrow wide_ok wide_refused after by (cases "LENGTH('w) < 32") auto
qed

theorem update_indexes_unchecked_witness:
  "rb_scout_update_indexes (registered_thread :: thread_vars_16) 0 3000 =
     (Return Qtrue,
      (registered_thread :: thread_vars_16)
        \<lparr>start_trace_index := word_of_int 3000, start_frame_index := word_of_int 0\<rparr>) \<and>
   rb_scout_profile_frames quiet_env
      ((registered_thread :: thread_vars_16)
        \<lparr>start_trace_index := word_of_int 3000, start_frame_index := word_of_int 0\<rparr>) =
     (Return (Ary []),
      (registered_thread :: thread_vars_16)
        \<lparr>start_trace_index := word_of_int 3000, start_frame_index := word_of_int 0,
          cur_traces_num := word_of_int 3000\<rparr>) \<and>
   MAX_TRACES < 3000"
proof -
  have h1: "uint (cur_traces_num (registered_thread :: thread_vars_16)) < 3000"
    by (simp add: registered_thread_fields)
  have h2: "(3000::int) < 2 ^ 31" by simp
  have h3: "(3000::int) < 2 ^ LENGTH(16)" by simp
  have h4: "- (2 ^ 31) \<le> (0::int)" by simp
  have h5: "(0::int) < 2 ^ 31" by simp
  have n: "LENGTH(16) < 32" by simp
  have m: "MAX_TRACES < 3000" by (simp add: MAX_TRACES_def)
  from update_indexes_unchecked [OF h1 h2 h3 h4 h5, of quiet_env] n m
  show ?thesis unfolding Let_def by blast
qed

text \<open>
  Claim C10 as stated holds for every trace index above the number of traces. Where
  the index type has 16 bits, the index 70000 is stored as 4464, and after
  \<open>profile_frames\<close> the number of traces is 4464.
\<close>

theorem update_indexes_truncates:
  "uint (cur_traces_num (registered_thread :: thread_vars_16)) < 70000 \<and>
   fst (rb_scout_update_indexes (registered_thread :: thread_vars_16) 0 70000) = Return Qtrue \<and>
   fst (rb_scout_profile_frames quiet_env
      (snd (rb_scout_update_indexes (registered_thread :: thread_vars_16) 0 70000))) =
     Return (Ary []) \<and>
   uint (cur_traces_num (snd (rb_scout_profile_frames quiet_env
      (snd (rb_scout_update_indexes (registered_thread :: thread_vars_16) 0 70000))))) = 4464"
  by (simp add: rb_scout_update_indexes_def num2int_def rb_scout_profile_frames_def
      traces_minus_start_def registered_thread_fields Let_def)

text \<open>
  Where the index type has 64 bits and the runtime refuses a capacity that is negative
  as a \<open>long\<close>: after \<open>update_indexes(0, 5)\<close> on a thread without traces the
  difference \<open>0 - 5\<close> wraps to \<open>2 ^ 64 - 5\<close>, \<open>profile_frames\<close> raises
  \<open>ArgumentError\<close>, and the number of traces stays 0.
\<close>

theorem profile_frames_refused_capacity:
  "rb_scout_profile_frames lp64_env
      (snd (rb_scout_update_indexes (registered_thread :: thread_vars_64) 0 5)) =
     (Raise ArgumentError,
      snd (rb_scout_update_indexes (registered_thread :: thread_vars_64) 0 5)) \<and>
   cur_traces_num (snd (rb_scout_update_indexes (registered_thread :: thread_vars_64) 0 5)) = 0"
  by (simp add: rb_scout_update_indexes_def num2int_def rb_scout_profile_frames_def
      traces_minus_start_def registered_thread_fields Let_def lp64_env_def quiet_env_def)

subsection \<open>Two runs from start to retrieval\<close>

text \<open>
  A thread registers and starts sampling; five ticks find three frames each, with the
  frame index at 0. \<open>current_trace_index\<close> answers 5, and \<open>profile_frames\<close> returns
  five traces of one line each (\<open>3 - 0 - 2\<close>) and takes the number of traces back to 0.
\<close>

theorem five_ticks:
  "fst (rb_scout_current_trace_index
      (signals [tick, tick, tick, tick, tick] (registered_sampling :: thread_vars_64))) =
     Return (Fixnum 5) \<and>
   fst (rb_scout_profile_frames quiet_env
      (signals [tick, tick, tick, tick, tick] (registered_sampling :: thread_vars_64))) =
     Return (Ary [Ary [Ary [Frame 0, Fixnum 10]], Ary [Ary [Frame 0, Fixnum 10]],
                  Ary [Ary [Frame 0, Fixnum 10]], Ary [Ary [Frame 0, Fixnum 10]],
                  Ary [Ary [Frame 0, Fixnum 10]]]) \<and>
   cur_traces_num (snd (rb_scout_profile_frames quiet_env
      (signals [tick, tick, tick, tick, tick] (registered_sampling :: thread_vars_64)))) = 0"
proof -
  let ?r = "registered_sampling :: thread_vars_64"
  let ?s = "signals [tick, tick, tick, tick, tick] ?r"
  have s: "?s = ?r
      \<lparr>traces := (traces ?r)
          (0 := one_line (traces ?r 0), 1 := one_line (traces ?r 1),
           2 := one_line (traces ?r 2), 3 := one_line (traces ?r 3),
           4 := one_line (traces ?r 4)),
        cur_traces_num := 5\<rparr>"
    by (simp add: handler_tick registered_sampling_fields(1-7) MAX_TRACES_def)
  have h1: "unat (cur_traces_num ?s) \<le> MAX_TRACES"
    unfolding s by (simp add: MAX_TRACES_def)
  have h2: "num_tracelines (traces ?s i) \<le> int BUF_SIZE"
    if "unat (start_trace_index ?s) \<le> i" "i < unat (cur_traces_num ?s)" for i
    using that unfolding s by (simp add: one_line_count BUF_SIZE_def)
  have h3: "rb_ary_new2_accepts quiet_env c" if "0 < c" "c \<le> int MAX_TRACES" for c
    using that by (simp add: quiet_env_def)
  have h4: "unat (start_trace_index ?s) \<le> unat (cur_traces_num ?s) \<or> LENGTH(64) < 32 \<or>
      rb_ary_new2_accepts quiet_env
        (traces_minus_start (cur_traces_num ?s) (start_trace_index ?s))"
    unfolding s by (simp add: registered_sampling_fields(1-7))
  have w: "window_traces ?s =
     [Ary [Ary [Frame 0, Fixnum 10]], Ary [Ary [Frame 0, Fixnum 10]],
      Ary [Ary [Frame 0, Fixnum 10]], Ary [Ary [Frame 0, Fixnum 10]],
      Ary [Ary [Frame 0, Fixnum 10]]]"
    unfolding s
    by (simp add: window_traces_def registered_sampling_fields(1-7) one_line_count
        one_line_window upt_rec)
  have c: "fst (rb_scout_current_trace_index ?s) = Return (Fixnum 5)"
    unfolding s by (simp add: rb_scout_current_trace_index_def to_c_int_def)
  from profile_frames_in_bounds [of ?s quiet_env, OF h1 h2 h3 h4] w c show ?thesis
    unfolding s by (simp add: registered_sampling_fields(1-7))
qed

text \<open>
  The same thread with a collection in progress at two of five ticks: two skips are
  counted and three traces are stored.
\<close>

theorem gc_ticks:
  "skipped_in_gc
      (signals [tick, gc_tick, tick, gc_tick, tick] (registered_sampling :: thread_vars_64)) = 2 \<and>
   fst (rb_scout_current_trace_index
      (signals [tick, gc_tick, tick, gc_tick, tick] (registered_sampling :: thread_vars_64))) =
     Return (Fixnum 3)"
  by (simp add: handler_tick handler_gc_tick registered_sampling_fields(1-7) MAX_TRACES_def
      rb_scout_current_trace_index_def to_c_int_def)

end
